theory Spec2Isabelle
  imports Main
begin

section \<open>Text and JSON values\<close>

text \<open>
  A Python \<open>str\<close> is a sequence of Unicode code points and \<open>len\<close> counts them.
  A HOL \<open>char\<close> is one byte, so text is modelled as a list of code points: one
  list element per character, whatever its encoded size.
\<close>

type_synonym pystr = "nat list"

definition str :: "string \<Rightarrow> pystr" where
  "str s = map of_char s"

text \<open>
  The values the handlers return are Python dicts of strings, booleans, integers and
  nested dicts; the framework serialises them to JSON. A dict literal is kept as the
  list of its items, in the order the source writes them. The same type holds the
  values a JSON body decodes to; there a number with a fraction or an exponent is a
  float, and Python's decoder also accepts \<open>NaN\<close>, \<open>Infinity\<close> and \<open>-Infinity\<close>.
\<close>

datatype pyfloat = FloatValue int int | FloatNaN | FloatPosInf | FloatNegInf

datatype json =
    JNull
  | JBool bool
  | JInt int
  | JStr pystr
  | JList "json list"
  | JDict "(pystr \<times> json) list"
  | JFloat pyfloat

fun get :: "json \<Rightarrow> pystr \<Rightarrow> json option" where
  "get (JDict kvs) k = map_of kvs k"
| "get _ k = None"

section \<open>The clock\<close>

text \<open>
  \<open>datetime.now()\<close> reads the local clock: each reading is an input of the model.
  It is a naive datetime, so \<open>isoformat()\<close> prints
  \<open>YYYY-MM-DDTHH:MM:SS\<close>, followed by \<open>.ffffff\<close> when the microsecond is not zero,
  and no offset.
\<close>

record datetime =
  year :: nat
  month :: nat
  day :: nat
  hour :: nat
  minute :: nat
  second :: nat
  microsecond :: nat

definition valid_datetime :: "datetime \<Rightarrow> bool" where
  "valid_datetime t \<longleftrightarrow>
     1 \<le> year t \<and> year t \<le> 9999 \<and> 1 \<le> month t \<and> month t \<le> 12 \<and>
     1 \<le> day t \<and> day t \<le> 31 \<and> hour t \<le> 23 \<and> minute t \<le> 59 \<and>
     second t \<le> 59 \<and> microsecond t \<le> 999999"

fun dec :: "nat \<Rightarrow> pystr" where
  "dec n = (if n < 10 then [48 + n] else dec (n div 10) @ [48 + n mod 10])"

declare dec.simps [simp del]

definition zfill :: "nat \<Rightarrow> pystr \<Rightarrow> pystr" where
  "zfill w s = replicate (w - length s) 48 @ s"

definition isoformat :: "datetime \<Rightarrow> pystr" where
  "isoformat t =
     zfill 4 (dec (year t)) @ str ''-'' @ zfill 2 (dec (month t)) @ str ''-'' @
     zfill 2 (dec (day t)) @ str ''T'' @
     zfill 2 (dec (hour t)) @ str '':'' @ zfill 2 (dec (minute t)) @ str '':'' @
     zfill 2 (dec (second t)) @
     (if microsecond t = 0 then [] else str ''.'' @ zfill 6 (dec (microsecond t)))"

section \<open>The application\<close>

record UserData =
  firstName :: pystr
  lastName :: pystr
  textData :: pystr

record HTTPAuthorizationCredentials =
  scheme :: pystr
  credentials :: pystr

record HTTPException =
  status_code :: nat
  detail :: pystr

definition verify_token :: "HTTPAuthorizationCredentials \<Rightarrow> HTTPException + json" where
  "verify_token creds =
     (let token = credentials creds in
      if token = str ''demo-secure-token''
      then Inr (JDict [(str ''authenticated'', JBool True),
                       (str ''user'', JStr (str ''demo-user''))])
      else Inl \<lparr>status_code = 401, detail = str ''Invalid token''\<rparr>)"

definition health_check :: "datetime \<Rightarrow> json" where
  "health_check now =
     JDict [(str ''status'', JStr (str ''healthy'')),
            (str ''timestamp'', JStr (isoformat now)),
            (str ''service'', JStr (str ''secure-backend-aks''))]"

text \<open>
  \<open>process_data\<close> reads the clock twice; \<open>now1\<close> and \<open>now2\<close> are the two readings.
  The handler receives the authentication context and does not use it.
\<close>

definition process_data :: "UserData \<Rightarrow> json \<Rightarrow> datetime \<Rightarrow> datetime \<Rightarrow> json" where
  "process_data data auth now1 now2 =
     JDict [(str ''message'',
               JStr (str ''Hello '' @ firstName data @ str '' '' @ lastName data @
                     str ''. Received: '' @ textData data)),
            (str ''authentication_analysis'',
               JDict [(str ''timestamp'', JStr (isoformat now1)),
                      (str ''authenticated'', JBool True),
                      (str ''service'', JStr (str ''Private AKS Backend''))]),
            (str ''processing_details'',
               JDict [(str ''data_length'', JInt (int (length (textData data)))),
                      (str ''processed_at'', JStr (isoformat now2))])]"

text \<open>The value at a path of keys of a nested dict.\<close>

fun get_path :: "json \<Rightarrow> pystr list \<Rightarrow> json option" where
  "get_path v [] = Some v"
| "get_path v (k # ks) = (case get v k of None \<Rightarrow> None | Some w \<Rightarrow> get_path w ks)"

section \<open>A profile of ISO 8601\<close>

text \<open>
  The extended date and time format with a \<open>T\<close> separator, four-digit year and an
  optional fraction of six digits. In a template, \<open>d\<close> stands for any decimal digit
  and every other character for itself.
\<close>

definition is_digit :: "nat \<Rightarrow> bool" where
  "is_digit c \<longleftrightarrow> 48 \<le> c \<and> c \<le> 57"

fun matches :: "string \<Rightarrow> pystr \<Rightarrow> bool" where
  "matches [] [] = True"
| "matches (p # ps) (c # cs) =
     ((if p = CHR ''d'' then is_digit c else c = of_char p) \<and> matches ps cs)"
| "matches _ _ = False"

definition iso8601 :: "pystr \<Rightarrow> bool" where
  "iso8601 s \<longleftrightarrow>
     matches ''dddd-dd-ddTdd:dd:dd'' s \<or> matches ''dddd-dd-ddTdd:dd:dd.dddddd'' s"

section \<open>The framework around the handlers\<close>

text \<open>
  The source mounts its functions on FastAPI: \<open>security = HTTPBearer()\<close> extracts the
  bearer credential, \<open>Depends(verify_token)\<close> makes \<open>verify_token\<close> a dependency of the
  \<open>/process\<close> route, the annotation \<open>data: UserData\<close> makes the JSON body a validated
  \<open>UserData\<close>, and \<open>CORSMiddleware\<close> wraps the application. These are library code,
  not code of the repository; the definitions of this section follow the library's
  behaviour for the options the source selects, and the text says where releases of the
  library differ.
\<close>

subsection \<open>HTTPBearer\<close>

text \<open>
  \<open>HTTPBearer\<close> with its default \<open>auto_error=True\<close> reads the \<open>Authorization\<close> header,
  splits it at the first space into scheme and credentials, and raises when the header
  is absent, when either part is empty, or when the scheme is not \<open>bearer\<close> in any
  letter case. The status of these errors is 403 in the older releases of FastAPI and
  401 in recent ones, where the second detail is "Not authenticated" too; no release
  raises them with the detail "Invalid token". Only ASCII letters matter for the
  comparison with \<open>bearer\<close>, so \<open>lower\<close> maps those.
\<close>

definition lower :: "pystr \<Rightarrow> pystr" where
  "lower s = map (\<lambda>c. if 65 \<le> c \<and> c \<le> 90 then c + 32 else c) s"

fun partition_space :: "pystr \<Rightarrow> pystr \<times> pystr" where
  "partition_space [] = ([], [])"
| "partition_space (c # cs) =
     (if c = 32 then ([], cs)
      else (case partition_space cs of (a, b) \<Rightarrow> (c # a, b)))"

definition get_authorization_scheme_param :: "pystr option \<Rightarrow> pystr \<times> pystr" where
  "get_authorization_scheme_param h =
     (case h of None \<Rightarrow> ([], [])
      | Some v \<Rightarrow> if v = [] then ([], []) else partition_space v)"

definition HTTPBearer_call ::
  "pystr option \<Rightarrow> HTTPException + HTTPAuthorizationCredentials" where
  "HTTPBearer_call authorization =
     (case get_authorization_scheme_param authorization of
        (sch, cred) \<Rightarrow>
          if authorization = None \<or> authorization = Some [] \<or> sch = [] \<or> cred = []
          then Inl \<lparr>status_code = 403, detail = str ''Not authenticated''\<rparr>
          else if lower sch \<noteq> str ''bearer''
          then Inl \<lparr>status_code = 403,
                     detail = str ''Invalid authentication credentials''\<rparr>
          else Inr \<lparr>scheme = sch, credentials = cred\<rparr>)"

subsection \<open>Reading the request body\<close>

text \<open>
  Before anything else the route reads the body. No body at all is \<open>None\<close>. When
  the request names no content type or a JSON one, the bytes are decoded as JSON: the
  result is the decoded value, a \<open>JSONDecodeError\<close> with its position and message, or
  another exception (bytes that are not UTF-8, for one). With any other content type
  the bytes are kept as they are; the model records their UTF-8 decoding, \<open>None\<close>
  when they have none. A decoding error ends the request at once, before any
  dependency runs: 422 for a \<open>JSONDecodeError\<close>, 400 for another exception. A body
  that decodes to \<open>null\<close> counts as no body.
\<close>

datatype Payload =
    Decoded json
  | Bytes "pystr option"
  | Undecodable nat pystr
  | Unreadable


datatype Received = Value json | RawBytes "pystr option"

datatype BodyError = JSONDecodeError nat pystr | OtherError

definition read_body :: "Payload option \<Rightarrow> BodyError + Received option" where
  "read_body p =
     (case p of
        None \<Rightarrow> Inr None
      | Some (Decoded v) \<Rightarrow> Inr (if v = JNull then None else Some (Value v))
      | Some (Bytes b) \<Rightarrow> Inr (Some (RawBytes b))
      | Some (Undecodable pos msg) \<Rightarrow> Inl (JSONDecodeError pos msg)
      | Some Unreadable \<Rightarrow> Inl OtherError)"

subsection \<open>Validation of the request body\<close>

text \<open>
  The model \<open>UserData\<close> has three required fields of type \<open>str\<close>. A body that is
  absent is an error located at the body; so is a body that is not a dict. In a dict,
  a field that is absent or is not a string is an error located at that field (a
  string is required as pydantic 2 does it: numbers are not converted), and keys the
  model does not declare are ignored. All errors of a body are reported together, in
  the order of the fields, and each error carries the input it rejects: the whole dict
  for an absent field, the value for a field that is not a string. A Python dict has
  each key once; the lookup takes the last entry of a key, as decoding a JSON text
  that repeats the key does.
\<close>

datatype ErrorType = Missing | StringType | ModelAttributesType

record ErrorDetail =
  err_type :: ErrorType
  loc :: "pystr list"
  err_input :: "Received option"

definition validate_str :: "(pystr \<times> json) list \<Rightarrow> pystr \<Rightarrow> ErrorDetail + pystr" where
  "validate_str kvs k =
     (case map_of (rev kvs) k of
        None \<Rightarrow> Inl \<lparr>err_type = Missing, loc = [str ''body'', k],
                       err_input = Some (Value (JDict kvs))\<rparr>
      | Some (JStr s) \<Rightarrow> Inr s
      | Some v \<Rightarrow> Inl \<lparr>err_type = StringType, loc = [str ''body'', k],
                         err_input = Some (Value v)\<rparr>)"

fun errors_of :: "ErrorDetail + pystr \<Rightarrow> ErrorDetail list" where
  "errors_of (Inl e) = [e]"
| "errors_of (Inr _) = []"

definition validate_UserData :: "Received option \<Rightarrow> ErrorDetail list + UserData" where
  "validate_UserData b =
     (case b of
        None \<Rightarrow> Inl [\<lparr>err_type = Missing, loc = [str ''body''], err_input = None\<rparr>]
      | Some (Value (JDict kvs)) \<Rightarrow>
          (case (validate_str kvs (str ''firstName''), validate_str kvs (str ''lastName''),
                 validate_str kvs (str ''textData'')) of
             (Inr f, Inr l, Inr t) \<Rightarrow> Inr \<lparr>firstName = f, lastName = l, textData = t\<rparr>
           | (f, l, t) \<Rightarrow> Inl (errors_of f @ errors_of l @ errors_of t))
      | Some other \<Rightarrow>
          Inl [\<lparr>err_type = ModelAttributesType, loc = [str ''body''],
                err_input = Some other\<rparr>])"

subsection \<open>Rendering a response\<close>

text \<open>
  A JSON response is written with \<open>ensure_ascii=False\<close> and \<open>allow_nan=False\<close> and
  then encoded as UTF-8. Writing fails on a float that is not finite and encoding fails
  on a lone surrogate (a code point from U+D800 to U+DFFF) in a string or a key. The
  exception is handled by no one: the server answers 500 with the plain text
  "Internal Server Error", kept here as a string value.
\<close>

definition has_surrogate :: "pystr \<Rightarrow> bool" where
  "has_surrogate s \<longleftrightarrow> list_ex (\<lambda>c. 55296 \<le> c \<and> c \<le> 57343) s"

fun finite_float :: "pyfloat \<Rightarrow> bool" where
  "finite_float (FloatValue m e) = True"
| "finite_float _ = False"

fun renderable :: "json \<Rightarrow> bool" where
  "renderable (JStr s) = (\<not> has_surrogate s)"
| "renderable (JFloat f) = finite_float f"
| "renderable (JList vs) = list_all renderable vs"
| "renderable (JDict kvs) =
     (list_all (\<lambda>k. \<not> has_surrogate k) (map fst kvs) \<and> list_all renderable (map snd kvs))"
| "renderable _ = True"

subsection \<open>The routes\<close>

text \<open>
  A request carries what the routes and the middleware read. A result is the status
  and the JSON content of the response, together with the functions of the source that
  ran for it, in order.
\<close>

datatype Route = GET_health | POST_process

record Request =
  route :: Route
  authorization :: "pystr option"
  origin :: "pystr option"
  cookie :: "pystr option"
  body :: "Payload option"

datatype Call = Called_verify_token | Called_health_check | Called_process_data

record Result =
  status :: nat
  content :: json
  invoked :: "Call list"

definition render :: "nat \<Rightarrow> json \<Rightarrow> Call list \<Rightarrow> Result" where
  "render st v cs =
     (if renderable v then \<lparr>status = st, content = v, invoked = cs\<rparr>
      else \<lparr>status = 500, content = JStr (str ''Internal Server Error''), invoked = cs\<rparr>)"

text \<open>
  An entry of the detail of a 422 has the type of the error, its location, a message
  and the rejected input. The input is encoded for JSON first: bytes are decoded as
  UTF-8, which raises when they are not UTF-8.
\<close>

definition error_type_name :: "ErrorType \<Rightarrow> pystr" where
  "error_type_name t =
     (case t of Missing \<Rightarrow> str ''missing'' | StringType \<Rightarrow> str ''string_type''
      | ModelAttributesType \<Rightarrow> str ''model_attributes_type'')"

definition error_msg :: "ErrorType \<Rightarrow> pystr" where
  "error_msg t =
     (case t of Missing \<Rightarrow> str ''Field required''
      | StringType \<Rightarrow> str ''Input should be a valid string''
      | ModelAttributesType \<Rightarrow>
          str ''Input should be a valid dictionary or object to extract fields from'')"

definition encode_input :: "Received option \<Rightarrow> json option" where
  "encode_input i =
     (case i of
        None \<Rightarrow> Some JNull
      | Some (Value v) \<Rightarrow> Some v
      | Some (RawBytes None) \<Rightarrow> None
      | Some (RawBytes (Some s)) \<Rightarrow> Some (JStr s))"

definition error_json :: "ErrorDetail \<Rightarrow> json option" where
  "error_json e =
     (case encode_input (err_input e) of
        None \<Rightarrow> None
      | Some i \<Rightarrow>
          Some (JDict [(str ''type'', JStr (error_type_name (err_type e))),
                       (str ''loc'', JList (map JStr (loc e))),
                       (str ''msg'', JStr (error_msg (err_type e))),
                       (str ''input'', i)]))"

definition http_exception_result :: "HTTPException \<Rightarrow> Call list \<Rightarrow> Result" where
  "http_exception_result e cs =
     \<lparr>status = status_code e, content = JDict [(str ''detail'', JStr (detail e))],
      invoked = cs\<rparr>"

definition validation_error_result :: "ErrorDetail list \<Rightarrow> Call list \<Rightarrow> Result" where
  "validation_error_result errs cs =
     (if list_all (\<lambda>e. error_json e \<noteq> None) errs
      then render 422 (JDict [(str ''detail'', JList (map (\<lambda>e. the (error_json e)) errs))]) cs
      else \<lparr>status = 500, content = JStr (str ''Internal Server Error''), invoked = cs\<rparr>)"

definition body_error_result :: "BodyError \<Rightarrow> Result" where
  "body_error_result err =
     (case err of
        JSONDecodeError pos msg \<Rightarrow>
          render 422
            (JDict [(str ''detail'',
               JList [JDict [(str ''type'', JStr (str ''json_invalid'')),
                             (str ''loc'', JList [JStr (str ''body''), JInt (int pos)]),
                             (str ''msg'', JStr (str ''JSON decode error'')),
                             (str ''input'', JDict []),
                             (str ''ctx'', JDict [(str ''error'', JStr msg)])]])]) []
      | OtherError \<Rightarrow>
          http_exception_result
            \<lparr>status_code = 400, detail = str ''There was an error parsing the body''\<rparr> [])"

text \<open>
  After the body is read, the framework solves the dependencies of the route before
  it validates the body, and an \<open>HTTPException\<close> raised by a dependency ends the
  request at once. The handler runs only when the dependencies returned and the body
  is valid; its return value is then rendered.
\<close>

definition process_route :: "Request \<Rightarrow> datetime \<Rightarrow> datetime \<Rightarrow> Result" where
  "process_route req now1 now2 =
     (case read_body (body req) of
        Inl err \<Rightarrow> body_error_result err
      | Inr received \<Rightarrow>
          (case HTTPBearer_call (authorization req) of
             Inl e \<Rightarrow> http_exception_result e []
           | Inr creds \<Rightarrow>
               (case verify_token creds of
                  Inl e \<Rightarrow> http_exception_result e [Called_verify_token]
                | Inr auth \<Rightarrow>
                    (case validate_UserData received of
                       Inl errs \<Rightarrow> validation_error_result errs [Called_verify_token]
                     | Inr data \<Rightarrow>
                         render 200 (process_data data auth now1 now2)
                           [Called_verify_token, Called_process_data]))))"

definition health_route :: "Request \<Rightarrow> datetime \<Rightarrow> Result" where
  "health_route req now =
     \<lparr>status = 200, content = health_check now, invoked = [Called_health_check]\<rparr>"

subsection \<open>CORSMiddleware\<close>

text \<open>
  The middleware keeps the options it is constructed with. An origin is allowed when
  the list of origins contains \<open>*\<close> or contains the origin itself: the entries are
  compared as strings, and a pattern is matched only when it is given as
  \<open>allow_origin_regex\<close>, which the source does not pass. To the response of a request
  that carries an \<open>Origin\<close> header and is not a preflight, the middleware adds the
  headers below; a request without \<open>Origin\<close> passes through unchanged.
\<close>

record CORSConfig =
  allow_origins :: "pystr list"
  allow_credentials :: bool
  allow_methods :: "pystr list"
  allow_headers :: "pystr list"

definition cors_config :: CORSConfig where
  "cors_config =
     \<lparr>allow_origins = [str ''https://frontend-webapp-container.azurewebsites.net'',
                       str ''https://*.azurewebsites.net''],
      allow_credentials = True,
      allow_methods = [str ''GET'', str ''POST'', str ''OPTIONS''],
      allow_headers = [str ''*'']\<rparr>"

definition allow_all_origins :: "CORSConfig \<Rightarrow> bool" where
  "allow_all_origins cfg \<longleftrightarrow> str ''*'' \<in> set (allow_origins cfg)"

definition is_allowed_origin :: "CORSConfig \<Rightarrow> pystr \<Rightarrow> bool" where
  "is_allowed_origin cfg orig \<longleftrightarrow> allow_all_origins cfg \<or> orig \<in> set (allow_origins cfg)"

definition allow_explicit_origin :: "pystr \<Rightarrow> (pystr \<times> pystr) list" where
  "allow_explicit_origin orig =
     [(str ''Access-Control-Allow-Origin'', orig), (str ''Vary'', str ''Origin'')]"

definition simple_response_headers ::
  "CORSConfig \<Rightarrow> pystr \<Rightarrow> bool \<Rightarrow> (pystr \<times> pystr) list" where
  "simple_response_headers cfg orig has_cookie =
     (if allow_all_origins cfg then [(str ''Access-Control-Allow-Origin'', str ''*'')] else []) @
     (if allow_credentials cfg then [(str ''Access-Control-Allow-Credentials'', str ''true'')]
      else []) @
     (if allow_all_origins cfg \<and> has_cookie then allow_explicit_origin orig
      else if \<not> allow_all_origins cfg \<and> is_allowed_origin cfg orig
      then allow_explicit_origin orig
      else [])"

text \<open>
  The value of a response header: a later entry for a name replaces an earlier one.
\<close>

definition header :: "(pystr \<times> pystr) list \<Rightarrow> pystr \<Rightarrow> pystr option" where
  "header hs name = map_of (rev hs) name"

text \<open>
  What the claim about the wildcard entry reads it as: any origin
  \<open>https://<label>.azurewebsites.net\<close> with a non-empty label.
\<close>

definition matches_wildcard_subdomain :: "pystr \<Rightarrow> bool" where
  "matches_wildcard_subdomain orig \<longleftrightarrow>
     (let p = str ''https://''; q = str ''.azurewebsites.net'' in
      length p + length q < length orig \<and>
      take (length p) orig = p \<and>
      drop (length orig - length q) orig = q)"

subsection \<open>The server\<close>

text \<open>
  The only objects the module creates are the application with its middleware, the
  bearer scheme and a logger; of these only the options of the middleware are data.
  They are the state a request could read or change. A request is served with the two
  clock readings its handler may take; \<open>health_check\<close> takes the first only. The
  answer to an exception that nothing handles is written outside the middleware and
  gets none of its headers.
\<close>

record Server =
  cors :: CORSConfig

definition server :: Server where
  "server = \<lparr>cors = cors_config\<rparr>"

record Response =
  result :: Result
  headers :: "(pystr \<times> pystr) list"

definition serve :: "Server \<Rightarrow> Request \<Rightarrow> datetime \<Rightarrow> datetime \<Rightarrow> Response \<times> Server" where
  "serve s req now1 now2 =
     (let r = (case route req of
                 GET_health \<Rightarrow> health_route req now1
               | POST_process \<Rightarrow> process_route req now1 now2);
          hs = (case origin req of
                  None \<Rightarrow> []
                | Some orig \<Rightarrow>
                    if status r = 500 then []
                    else simple_response_headers (cors s) orig (cookie req \<noteq> None))
      in (\<lparr>result = r, headers = hs\<rparr>, s))"

section \<open>The process handler\<close>

text \<open>
  C2: for every UserData value and every authentication context, the message of the
  response of \<open>process_data\<close> is "Hello " + firstName + " " + lastName + ". Received: " +
  textData; for Ada Lovelace and "hello" it is "Hello Ada Lovelace. Received: hello".
\<close>

theorem process_data_message:
  "get (process_data data auth now1 now2) (str ''message'') =
     Some (JStr (str ''Hello '' @ firstName data @ str '' '' @ lastName data @
                 str ''. Received: '' @ textData data))
   \<and> get (process_data \<lparr>firstName = str ''Ada'', lastName = str ''Lovelace'',
                          textData = str ''hello''\<rparr> auth now1 now2) (str ''message'') =
     Some (JStr (str ''Hello Ada Lovelace. Received: hello''))"
  by (simp add: process_data_def str_def)

text \<open>
  C3: for every textData, the empty string and text with characters beyond ASCII
  included, data_length in processing_details is the number of characters of textData:
  5 for "hello", 0 for the empty string, 3 for the three characters U+00E9, U+20AC and
  U+1F600, which take two, three and four bytes in UTF-8.
\<close>

theorem process_data_data_length:
  "get_path (process_data data auth now1 now2)
     [str ''processing_details'', str ''data_length''] =
     Some (JInt (int (length (textData data))))
   \<and> get_path (process_data \<lparr>firstName = str ''Ada'', lastName = str ''Lovelace'',
                               textData = str ''hello''\<rparr> auth now1 now2)
     [str ''processing_details'', str ''data_length''] = Some (JInt 5)
   \<and> get_path (process_data \<lparr>firstName = f, lastName = l, textData = []\<rparr> auth now1 now2)
     [str ''processing_details'', str ''data_length''] = Some (JInt 0)
   \<and> get_path (process_data \<lparr>firstName = f, lastName = l,
                               textData = [233, 8364, 128512]\<rparr> auth now1 now2)
     [str ''processing_details'', str ''data_length''] = Some (JInt 3)"
  by (simp add: process_data_def str_def)

text \<open>
  C9: every response of \<open>process_data\<close> has an authentication_analysis block whose
  authenticated field is true and whose service field is "Private AKS Backend",
  whatever the input; the label differs from the "secure-backend-aks" of
  \<open>health_check\<close>.
\<close>

theorem process_data_authentication_analysis:
  "get_path (process_data data auth now1 now2)
     [str ''authentication_analysis'', str ''authenticated''] = Some (JBool True)
   \<and> get_path (process_data data auth now1 now2)
     [str ''authentication_analysis'', str ''service''] =
     Some (JStr (str ''Private AKS Backend''))
   \<and> get (health_check now) (str ''service'') = Some (JStr (str ''secure-backend-aks''))
   \<and> str ''Private AKS Backend'' \<noteq> str ''secure-backend-aks''"
  by (simp add: process_data_def health_check_def str_def)

text \<open>
  C10: two calls of \<open>process_data\<close> on inputs with equal firstName, lastName and
  textData give the same message, data_length, authenticated and service fields,
  whatever the authentication contexts and the clock readings of the two calls.
\<close>

theorem process_data_deterministic:
  "firstName d = firstName d' \<Longrightarrow> lastName d = lastName d' \<Longrightarrow> textData d = textData d' \<Longrightarrow>
     get_path (process_data d a t1 t2) [str ''message''] =
       get_path (process_data d' a' t1' t2') [str ''message'']
   \<and> get_path (process_data d a t1 t2) [str ''processing_details'', str ''data_length''] =
       get_path (process_data d' a' t1' t2') [str ''processing_details'', str ''data_length'']
   \<and> get_path (process_data d a t1 t2)
         [str ''authentication_analysis'', str ''authenticated''] =
       get_path (process_data d' a' t1' t2')
         [str ''authentication_analysis'', str ''authenticated'']
   \<and> get_path (process_data d a t1 t2) [str ''authentication_analysis'', str ''service''] =
       get_path (process_data d' a' t1' t2') [str ''authentication_analysis'', str ''service'']"
  unfolding process_data_def by (simp add: str_def)

theorem process_data_deterministic_witness:
  "get_path (process_data \<lparr>firstName = str ''Ada'', lastName = str ''Lovelace'',
                             textData = str ''hello''\<rparr>
               (JDict []) \<lparr>year = 2024, month = 1, day = 1, hour = 0, minute = 0,
                             second = 0, microsecond = 0\<rparr>
               \<lparr>year = 2024, month = 1, day = 1, hour = 0, minute = 0,
                 second = 0, microsecond = 1\<rparr>) [str ''message''] =
   get_path (process_data \<lparr>firstName = str ''Ada'', lastName = str ''Lovelace'',
                             textData = str ''hello''\<rparr>
               JNull \<lparr>year = 2025, month = 6, day = 30, hour = 23, minute = 59,
                        second = 59, microsecond = 999999\<rparr>
               \<lparr>year = 2025, month = 7, day = 1, hour = 0, minute = 0,
                 second = 0, microsecond = 0\<rparr>) [str ''message'']"
  using process_data_deterministic
    [of "\<lparr>firstName = str ''Ada'', lastName = str ''Lovelace'', textData = str ''hello''\<rparr>"
        "\<lparr>firstName = str ''Ada'', lastName = str ''Lovelace'', textData = str ''hello''\<rparr>"
        "JDict []"
        "\<lparr>year = 2024, month = 1, day = 1, hour = 0, minute = 0,
          second = 0, microsecond = 0\<rparr>"
        "\<lparr>year = 2024, month = 1, day = 1, hour = 0, minute = 0,
          second = 0, microsecond = 1\<rparr>"
        JNull
        "\<lparr>year = 2025, month = 6, day = 30, hour = 23, minute = 59,
          second = 59, microsecond = 999999\<rparr>"
        "\<lparr>year = 2025, month = 7, day = 1, hour = 0, minute = 0,
          second = 0, microsecond = 0\<rparr>"]
  by simp

section \<open>The authentication check\<close>

text \<open>
  C6: \<open>verify_token\<close> succeeds exactly when the credential equals the fixed secret,
  and the context it then produces is \<open>{authenticated: true, user: "demo-user"}\<close>;
  it produces no other value.
\<close>

theorem verify_token_context:
  "verify_token creds = Inr c \<longleftrightarrow>
     credentials creds = str ''demo-secure-token'' \<and>
     c = JDict [(str ''authenticated'', JBool True),
                (str ''user'', JStr (str ''demo-user''))]"
  by (auto simp: verify_token_def Let_def)

theorem verify_token_context_witness:
  "verify_token \<lparr>scheme = str ''Bearer'', credentials = str ''demo-secure-token''\<rparr> =
     Inr (JDict [(str ''authenticated'', JBool True),
                 (str ''user'', JStr (str ''demo-user''))])"
  using verify_token_context
    [of "\<lparr>scheme = str ''Bearer'', credentials = str ''demo-secure-token''\<rparr>"
        "JDict [(str ''authenticated'', JBool True),
                (str ''user'', JStr (str ''demo-user''))]"]
  by simp

section \<open>The timestamps\<close>

lemma dec_digits: "c \<in> set (dec n) \<Longrightarrow> is_digit c"
proof (induction n rule: dec.induct)
  case (1 n)
  show ?case
  proof (cases "n < 10")
    case True
    with "1.prems" show ?thesis by (subst (asm) dec.simps) (simp add: is_digit_def)
  next
    case False
    have "n mod 10 < 10" by simp
    then have "is_digit (48 + n mod 10)" unfolding is_digit_def by linarith
    with False "1.prems" "1.IH" show ?thesis
      by (subst (asm) dec.simps) auto
  qed
qed

lemma length_dec: "0 < w \<Longrightarrow> n < 10 ^ w \<Longrightarrow> length (dec n) \<le> w"
proof (induction w arbitrary: n)
  case 0
  then show ?case by simp
next
  case (Suc w)
  show ?case
  proof (cases "n < 10")
    case True
    then show ?thesis by (subst dec.simps) simp
  next
    case False
    with Suc.prems have w: "0 < w" by (cases w) auto
    from Suc.prems have "n div 10 < 10 ^ w"
      by (simp add: less_mult_imp_div_less mult.commute)
    with Suc.IH w have "length (dec (n div 10)) \<le> w" by blast
    with False show ?thesis by (subst dec.simps) simp
  qed
qed

lemma matches_digits:
  "length s = w \<Longrightarrow> (\<And>c. c \<in> set s \<Longrightarrow> is_digit c) \<Longrightarrow> matches (replicate w (CHR ''d'')) s"
  by (induction s arbitrary: w) auto

lemma matches_append:
  "matches ps cs \<Longrightarrow> matches qs ds \<Longrightarrow> matches (ps @ qs) (cs @ ds)"
  by (induction ps cs rule: matches.induct) auto

lemma zfill_field:
  assumes "0 < w" and "n < 10 ^ w"
  shows "matches (replicate w (CHR ''d'')) (zfill w (dec n))"
proof (rule matches_digits)
  from assms have "length (dec n) \<le> w" by (rule length_dec)
  then show "length (zfill w (dec n)) = w" by (simp add: zfill_def)
  fix c assume "c \<in> set (zfill w (dec n))"
  then have "c = 48 \<or> c \<in> set (dec n)" by (auto simp: zfill_def)
  then show "is_digit c" using dec_digits by (auto simp: is_digit_def)
qed

lemma two_digits: "n \<le> 99 \<Longrightarrow> matches ''dd'' (zfill 2 (dec n))"
proof -
  assume "n \<le> 99"
  then have "n < 10 ^ 2" by simp
  then have "matches (replicate 2 (CHR ''d'')) (zfill 2 (dec n))"
    by (intro zfill_field) simp_all
  moreover have "replicate 2 (CHR ''d'') = ''dd''" by (simp add: eval_nat_numeral)
  ultimately show ?thesis by simp
qed

lemma four_digits: "n \<le> 9999 \<Longrightarrow> matches ''dddd'' (zfill 4 (dec n))"
proof -
  assume "n \<le> 9999"
  then have "n < 10 ^ 4" by simp
  then have "matches (replicate 4 (CHR ''d'')) (zfill 4 (dec n))"
    by (intro zfill_field) simp_all
  moreover have "replicate 4 (CHR ''d'') = ''dddd''" by (simp add: eval_nat_numeral)
  ultimately show ?thesis by simp
qed

lemma six_digits: "n \<le> 999999 \<Longrightarrow> matches ''dddddd'' (zfill 6 (dec n))"
proof -
  assume "n \<le> 999999"
  then have "n < 10 ^ 6" by simp
  then have "matches (replicate 6 (CHR ''d'')) (zfill 6 (dec n))"
    by (intro zfill_field) simp_all
  moreover have "replicate 6 (CHR ''d'') = ''dddddd''" by (simp add: eval_nat_numeral)
  ultimately show ?thesis by simp
qed

lemma date_time_matches:
  assumes "valid_datetime t"
  shows "matches ''dddd-dd-ddTdd:dd:dd''
     (zfill 4 (dec (year t)) @ str ''-'' @ zfill 2 (dec (month t)) @ str ''-'' @
      zfill 2 (dec (day t)) @ str ''T'' @
      zfill 2 (dec (hour t)) @ str '':'' @ zfill 2 (dec (minute t)) @ str '':'' @
      zfill 2 (dec (second t)))"
proof -
  have y: "matches ''dddd'' (zfill 4 (dec (year t)))"
    using assms by (intro four_digits) (simp add: valid_datetime_def)
  have mo: "matches ''dd'' (zfill 2 (dec (month t)))"
    using assms by (intro two_digits) (simp add: valid_datetime_def)
  have da: "matches ''dd'' (zfill 2 (dec (day t)))"
    using assms by (intro two_digits) (simp add: valid_datetime_def)
  have ho: "matches ''dd'' (zfill 2 (dec (hour t)))"
    using assms by (intro two_digits) (simp add: valid_datetime_def)
  have mi: "matches ''dd'' (zfill 2 (dec (minute t)))"
    using assms by (intro two_digits) (simp add: valid_datetime_def)
  have se: "matches ''dd'' (zfill 2 (dec (second t)))"
    using assms by (intro two_digits) (simp add: valid_datetime_def)
  have s1: "matches ''dd:dd'' (zfill 2 (dec (minute t)) @ str '':'' @ zfill 2 (dec (second t)))"
    using matches_append [OF mi matches_append [of "'':''" "str '':''", OF _ se]]
    by (simp add: str_def)
  have s2: "matches ''dd:dd:dd'' (zfill 2 (dec (hour t)) @ str '':'' @
      zfill 2 (dec (minute t)) @ str '':'' @ zfill 2 (dec (second t)))"
    using matches_append [OF ho matches_append [of "'':''" "str '':''", OF _ s1]]
    by (simp add: str_def)
  have s3: "matches ''ddTdd:dd:dd'' (zfill 2 (dec (day t)) @ str ''T'' @
      zfill 2 (dec (hour t)) @ str '':'' @
      zfill 2 (dec (minute t)) @ str '':'' @ zfill 2 (dec (second t)))"
    using matches_append [OF da matches_append [of "''T''" "str ''T''", OF _ s2]]
    by (simp add: str_def)
  have s4: "matches ''dd-ddTdd:dd:dd'' (zfill 2 (dec (month t)) @ str ''-'' @
      zfill 2 (dec (day t)) @ str ''T'' @
      zfill 2 (dec (hour t)) @ str '':'' @
      zfill 2 (dec (minute t)) @ str '':'' @ zfill 2 (dec (second t)))"
    using matches_append [OF mo matches_append [of "''-''" "str ''-''", OF _ s3]]
    by (simp add: str_def)
  show ?thesis
    using matches_append [OF y matches_append [of "''-''" "str ''-''", OF _ s4]]
    by (simp add: str_def)
qed

lemma isoformat_iso8601: "valid_datetime t \<Longrightarrow> iso8601 (isoformat t)"
proof -
  assume v: "valid_datetime t"
  note base = date_time_matches [OF v]
  show ?thesis
  proof (cases "microsecond t = 0")
    case True
    with base show ?thesis by (simp add: iso8601_def isoformat_def)
  next
    case False
    have us: "matches ''dddddd'' (zfill 6 (dec (microsecond t)))"
      using v by (intro six_digits) (simp add: valid_datetime_def)
    have "matches ''dddd-dd-ddTdd:dd:dd.dddddd'' (isoformat t)"
      using matches_append [OF base matches_append [of "''.''" "str ''.''", OF _ us]] False
      by (simp add: str_def isoformat_def)
    then show ?thesis by (simp add: iso8601_def)
  qed
qed

section \<open>The bearer scheme and the /process route\<close>

lemma partition_space_Bearer:
  "partition_space (str ''Bearer '' @ tok) = (str ''Bearer'', tok)"
  by (simp add: str_def)

lemma HTTPBearer_call_Bearer:
  "tok \<noteq> [] \<Longrightarrow>
     HTTPBearer_call (Some (str ''Bearer '' @ tok)) = Inr \<lparr>scheme = str ''Bearer'', credentials = tok\<rparr>"
  unfolding HTTPBearer_call_def get_authorization_scheme_param_def partition_space_Bearer
  by (simp add: str_def lower_def)

lemma HTTPBearer_call_None:
  "HTTPBearer_call None = Inl \<lparr>status_code = 403, detail = str ''Not authenticated''\<rparr>"
  by (simp add: HTTPBearer_call_def get_authorization_scheme_param_def)

lemma HTTPBearer_call_empty_part:
  "fst (partition_space h) = [] \<or> snd (partition_space h) = [] \<Longrightarrow>
     HTTPBearer_call (Some h) = Inl \<lparr>status_code = 403, detail = str ''Not authenticated''\<rparr>"
  by (auto simp: HTTPBearer_call_def get_authorization_scheme_param_def split: prod.splits)

lemma HTTPBearer_call_other_scheme:
  "fst (partition_space h) \<noteq> [] \<Longrightarrow> snd (partition_space h) \<noteq> [] \<Longrightarrow>
   lower (fst (partition_space h)) \<noteq> str ''bearer'' \<Longrightarrow>
     HTTPBearer_call (Some h) =
       Inl \<lparr>status_code = 403, detail = str ''Invalid authentication credentials''\<rparr>"
  by (auto simp: HTTPBearer_call_def get_authorization_scheme_param_def split: prod.splits)

text \<open>
  C1, as amended: take a request to \<open>/process\<close> whose body is read without a decoding
  error. If the bearer scheme extracts from its header a credential other than the
  fixed secret (any header \<open>Bearer <token>\<close> with a non-empty wrong token is one), the
  answer is 401 with \<open>{detail: "Invalid token"}\<close>, whatever the body holds. If the
  header is absent, or has no scheme or no credential, the bearer scheme answers 403
  with "Not authenticated"; if the scheme is not \<open>bearer\<close>, it answers 403 with
  "Invalid authentication credentials". In these cases \<open>verify_token\<close> does not run.
\<close>

theorem process_route_invalid_token:
  "read_body (body req) = Inr received \<Longrightarrow>
   (HTTPBearer_call (authorization req) = Inr creds \<longrightarrow>
      credentials creds \<noteq> str ''demo-secure-token'' \<longrightarrow>
      process_route req now1 now2 =
        \<lparr>status = 401, content = JDict [(str ''detail'', JStr (str ''Invalid token''))],
         invoked = [Called_verify_token]\<rparr>)
   \<and> (authorization req = Some (str ''Bearer '' @ tok) \<longrightarrow> tok \<noteq> [] \<longrightarrow>
      tok \<noteq> str ''demo-secure-token'' \<longrightarrow>
      process_route req now1 now2 =
        \<lparr>status = 401, content = JDict [(str ''detail'', JStr (str ''Invalid token''))],
         invoked = [Called_verify_token]\<rparr>)
   \<and> (authorization req = None \<longrightarrow>
      process_route req now1 now2 =
        \<lparr>status = 403, content = JDict [(str ''detail'', JStr (str ''Not authenticated''))],
         invoked = []\<rparr>)
   \<and> (authorization req = Some h \<longrightarrow>
      fst (partition_space h) = [] \<or> snd (partition_space h) = [] \<longrightarrow>
      process_route req now1 now2 =
        \<lparr>status = 403, content = JDict [(str ''detail'', JStr (str ''Not authenticated''))],
         invoked = []\<rparr>)
   \<and> (authorization req = Some h \<longrightarrow>
      fst (partition_space h) \<noteq> [] \<longrightarrow> snd (partition_space h) \<noteq> [] \<longrightarrow>
      lower (fst (partition_space h)) \<noteq> str ''bearer'' \<longrightarrow>
      process_route req now1 now2 =
        \<lparr>status = 403,
         content = JDict [(str ''detail'', JStr (str ''Invalid authentication credentials''))],
         invoked = []\<rparr>)"
proof -
  assume r: "read_body (body req) = Inr received"
  have a: "process_route req now1 now2 =
        \<lparr>status = 401, content = JDict [(str ''detail'', JStr (str ''Invalid token''))],
         invoked = [Called_verify_token]\<rparr>"
    if "HTTPBearer_call (authorization req) = Inr creds"
      and "credentials creds \<noteq> str ''demo-secure-token''" for creds
    using r that by (simp add: process_route_def verify_token_def http_exception_result_def)
  have b: "process_route req now1 now2 = http_exception_result e []"
    if "HTTPBearer_call (authorization req) = Inl e" for e
    using r that by (simp add: process_route_def)
  show ?thesis
  proof (intro conjI impI)
    assume "HTTPBearer_call (authorization req) = Inr creds"
      and "credentials creds \<noteq> str ''demo-secure-token''"
    then show "process_route req now1 now2 =
        \<lparr>status = 401, content = JDict [(str ''detail'', JStr (str ''Invalid token''))],
         invoked = [Called_verify_token]\<rparr>"
      by (rule a)
  next
    assume "authorization req = Some (str ''Bearer '' @ tok)" and "tok \<noteq> []"
      and t: "tok \<noteq> str ''demo-secure-token''"
    then have "HTTPBearer_call (authorization req) =
        Inr \<lparr>scheme = str ''Bearer'', credentials = tok\<rparr>"
      by (simp add: HTTPBearer_call_Bearer)
    from a [OF this] t show "process_route req now1 now2 =
        \<lparr>status = 401, content = JDict [(str ''detail'', JStr (str ''Invalid token''))],
         invoked = [Called_verify_token]\<rparr>"
      by simp
  next
    assume "authorization req = None"
    then show "process_route req now1 now2 =
        \<lparr>status = 403, content = JDict [(str ''detail'', JStr (str ''Not authenticated''))],
         invoked = []\<rparr>"
      using b [of "\<lparr>status_code = 403, detail = str ''Not authenticated''\<rparr>"]
      by (simp add: HTTPBearer_call_None http_exception_result_def)
  next
    assume "authorization req = Some h"
      and "fst (partition_space h) = [] \<or> snd (partition_space h) = []"
    then show "process_route req now1 now2 =
        \<lparr>status = 403, content = JDict [(str ''detail'', JStr (str ''Not authenticated''))],
         invoked = []\<rparr>"
      using b [of "\<lparr>status_code = 403, detail = str ''Not authenticated''\<rparr>"]
      by (simp add: HTTPBearer_call_empty_part http_exception_result_def)
  next
    assume "authorization req = Some h"
      and "fst (partition_space h) \<noteq> []" and "snd (partition_space h) \<noteq> []"
      and "lower (fst (partition_space h)) \<noteq> str ''bearer''"
    then show "process_route req now1 now2 =
        \<lparr>status = 403,
         content = JDict [(str ''detail'', JStr (str ''Invalid authentication credentials''))],
         invoked = []\<rparr>"
      using b [of "\<lparr>status_code = 403,
                     detail = str ''Invalid authentication credentials''\<rparr>"]
      by (simp add: HTTPBearer_call_other_scheme http_exception_result_def)
  qed
qed

theorem process_route_invalid_token_witness:
  "process_route \<lparr>route = POST_process, authorization = Some (str ''Bearer wrong-token''),
                   origin = None, cookie = None,
                   body = Some (Bytes (Some (str ''not json'')))\<rparr>
     \<lparr>year = 2024, month = 1, day = 1, hour = 0, minute = 0, second = 0, microsecond = 0\<rparr>
     \<lparr>year = 2024, month = 1, day = 1, hour = 0, minute = 0, second = 0, microsecond = 0\<rparr> =
     \<lparr>status = 401, content = JDict [(str ''detail'', JStr (str ''Invalid token''))],
      invoked = [Called_verify_token]\<rparr>"
proof -
  have "str ''Bearer wrong-token'' = str ''Bearer '' @ str ''wrong-token''"
    by (simp add: str_def)
  moreover have "str ''wrong-token'' \<noteq> []" "str ''wrong-token'' \<noteq> str ''demo-secure-token''"
    by (simp_all add: str_def)
  moreover have "read_body (Some (Bytes (Some (str ''not json'')))) =
      Inr (Some (RawBytes (Some (str ''not json''))))"
    by (simp add: read_body_def)
  ultimately show ?thesis
    using process_route_invalid_token
      [of "\<lparr>route = POST_process, authorization = Some (str ''Bearer wrong-token''),
            origin = None, cookie = None,
            body = Some (Bytes (Some (str ''not json'')))\<rparr>"
          "Some (RawBytes (Some (str ''not json'')))" _
          "\<lparr>year = 2024, month = 1, day = 1, hour = 0, minute = 0, second = 0, microsecond = 0\<rparr>"
          "\<lparr>year = 2024, month = 1, day = 1, hour = 0, minute = 0, second = 0, microsecond = 0\<rparr>"
          "str ''wrong-token''"]
    by simp
qed

text \<open>
  C1 as stated fails for a request without an \<open>Authorization\<close> header and with a
  valid body: the answer is 403 with the detail "Not authenticated".
\<close>

theorem process_route_absent_header_counterexample:
  "process_route
     \<lparr>route = POST_process, authorization = None, origin = None, cookie = None,
      body = Some (Decoded (JDict [(str ''firstName'', JStr (str ''Ada'')),
                                   (str ''lastName'', JStr (str ''Lovelace'')),
                                   (str ''textData'', JStr (str ''hello''))]))\<rparr>
     \<lparr>year = 2024, month = 1, day = 1, hour = 0, minute = 0, second = 0, microsecond = 0\<rparr>
     \<lparr>year = 2024, month = 1, day = 1, hour = 0, minute = 0, second = 0, microsecond = 0\<rparr>
   = \<lparr>status = 403, content = JDict [(str ''detail'', JStr (str ''Not authenticated''))],
      invoked = []\<rparr>
   \<and> JDict [(str ''detail'', JStr (str ''Not authenticated''))] \<noteq>
       JDict [(str ''detail'', JStr (str ''Invalid token''))]"
  by (simp add: process_route_def read_body_def HTTPBearer_call_def
      get_authorization_scheme_param_def http_exception_result_def str_def)

section \<open>Validation errors of the /process route\<close>

















section \<open>The health route\<close>

text \<open>
  C5: every request to \<open>GET /health\<close>, with whatever authorization header, origin or
  body, is answered 200 with status "healthy", service "secure-backend-aks" and the
  clock reading in ISO 8601 format; the handler has no failing branch and leaves the
  state of the server as it was. The clock reading is one \<open>datetime.now()\<close> can return.
\<close>

theorem health_route_healthy:
  "route req = GET_health \<Longrightarrow> valid_datetime now \<Longrightarrow>
     result (fst (serve s req now now2)) =
       \<lparr>status = 200,
        content = JDict [(str ''status'', JStr (str ''healthy'')),
                         (str ''timestamp'', JStr (isoformat now)),
                         (str ''service'', JStr (str ''secure-backend-aks''))],
        invoked = [Called_health_check]\<rparr>
   \<and> iso8601 (isoformat now)
   \<and> snd (serve s req now now2) = s"
  by (simp add: serve_def health_route_def health_check_def Let_def isoformat_iso8601)

theorem health_route_healthy_witness:
  "result (fst (serve server
      \<lparr>route = GET_health, authorization = None, origin = None, cookie = None, body = None\<rparr>
      \<lparr>year = 2024, month = 2, day = 29, hour = 7, minute = 5, second = 9,
        microsecond = 1234\<rparr>
      \<lparr>year = 2024, month = 2, day = 29, hour = 7, minute = 5, second = 9,
        microsecond = 1234\<rparr>)) =
     \<lparr>status = 200,
      content = JDict [(str ''status'', JStr (str ''healthy'')),
                       (str ''timestamp'', JStr (str ''2024-02-29T07:05:09.001234'')),
                       (str ''service'', JStr (str ''secure-backend-aks''))],
      invoked = [Called_health_check]\<rparr>
   \<and> iso8601 (str ''2024-02-29T07:05:09.001234'')"
proof -
  let ?t = "\<lparr>year = 2024, month = 2, day = 29, hour = 7, minute = 5, second = 9,
        microsecond = 1234\<rparr>"
  have v: "valid_datetime ?t" by (simp add: valid_datetime_def)
  have i: "isoformat ?t = str ''2024-02-29T07:05:09.001234''" by code_simp
  from health_route_healthy
    [of "\<lparr>route = GET_health, authorization = None, origin = None, cookie = None,
          body = None\<rparr>" ?t server ?t] v i
  show ?thesis by simp
qed

section \<open>Cross-origin requests\<close>

text \<open>
  C7 does not hold for the wildcard entry. The origin \<open>https://myapp.azurewebsites.net\<close>
  matches the pattern \<open>https://*.azurewebsites.net\<close>, but the middleware compares the
  entries of \<open>allow_origins\<close> as strings: the origin is not allowed and the response
  carries no \<open>Access-Control-Allow-Origin\<close>. The exact origin of the list is reflected.
\<close>

theorem cors_wildcard_origin_not_allowed:
  "matches_wildcard_subdomain (str ''https://myapp.azurewebsites.net'')
   \<and> \<not> is_allowed_origin cors_config (str ''https://myapp.azurewebsites.net'')
   \<and> header (headers (fst (serve server
        \<lparr>route = GET_health, authorization = None,
         origin = Some (str ''https://myapp.azurewebsites.net''), cookie = None,
         body = None\<rparr>
        \<lparr>year = 2024, month = 1, day = 1, hour = 0, minute = 0, second = 0,
          microsecond = 0\<rparr>
        \<lparr>year = 2024, month = 1, day = 1, hour = 0, minute = 0, second = 0,
          microsecond = 0\<rparr>)))
       (str ''Access-Control-Allow-Origin'') = None
   \<and> header (headers (fst (serve server
        \<lparr>route = GET_health, authorization = None,
         origin = Some (str ''https://myapp.azurewebsites.net''), cookie = None,
         body = None\<rparr>
        \<lparr>year = 2024, month = 1, day = 1, hour = 0, minute = 0, second = 0,
          microsecond = 0\<rparr>
        \<lparr>year = 2024, month = 1, day = 1, hour = 0, minute = 0, second = 0,
          microsecond = 0\<rparr>)))
       (str ''Access-Control-Allow-Credentials'') = Some (str ''true'')
   \<and> header (headers (fst (serve server
        \<lparr>route = GET_health, authorization = None,
         origin = Some (str ''https://frontend-webapp-container.azurewebsites.net''),
         cookie = None, body = None\<rparr>
        \<lparr>year = 2024, month = 1, day = 1, hour = 0, minute = 0, second = 0,
          microsecond = 0\<rparr>
        \<lparr>year = 2024, month = 1, day = 1, hour = 0, minute = 0, second = 0,
          microsecond = 0\<rparr>)))
       (str ''Access-Control-Allow-Origin'') =
       Some (str ''https://frontend-webapp-container.azurewebsites.net'')"
  by (simp add: matches_wildcard_subdomain_def is_allowed_origin_def allow_all_origins_def
      cors_config_def server_def serve_def health_route_def simple_response_headers_def
      allow_explicit_origin_def header_def Let_def str_def)

end
